theory Spec2Isabelle
  imports Complex_Main "HOL-Library.Sublist" "HOL-Library.Stream" "HOL-Library.AList"
begin

section \<open>Data model (models.py)\<close>

text \<open>
  Python floats are modelled as exact reals: every arithmetic expression of the source is
  written as it stands, without IEEE rounding. Python strings are modelled as
  \<^typ>\<open>string\<close>; \<open>str.lower\<close> is modelled on ASCII letters.
\<close>

datatype SentimentType = POSITIVE | NEGATIVE | NEUTRAL

text \<open>The \<open>.value\<close> of each member of the string enum.\<close>

fun sentiment_value :: "SentimentType \<Rightarrow> string" where
  "sentiment_value POSITIVE = ''positive''"
| "sentiment_value NEGATIVE = ''negative''"
| "sentiment_value NEUTRAL = ''neutral''"

text \<open>
  \<open>AnalysisResult\<close> (dataclass) and \<open>SentimentResult\<close> (pydantic model): the second
  carries the same four fields plus the statement, so it is written as an extension and
  the selectors keep the source's field names on both.
\<close>

record AnalysisResult =
  sentiment :: SentimentType
  score :: real
  confidence :: real
  keywords_found :: "string list"

record SentimentResult = AnalysisResult +
  statement :: string

record InsightSummary =
  summary :: string
  sentiment_distribution :: "(string \<times> nat) list"
  average_score :: real
  total_statements :: nat
  recommendations :: "string list"

record AnalyzerConfig =
  positive_keywords :: "string list"
  negative_keywords :: "string list"
  neutral_keywords :: "string list"
  confidence_threshold :: real
  minimum_score :: real
  maximum_score :: real

definition default_config :: AnalyzerConfig where
  "default_config =
     \<lparr> positive_keywords =
         [''love'', ''amazing'', ''impressed'', ''quality'', ''great'', ''excellent'',
          ''wonderful'', ''outstanding'', ''fantastic'', ''awesome'', ''perfect''],
       negative_keywords =
         [''disappointing'', ''not happy'', ''hope they improve'', ''bad'', ''terrible'',
          ''awful'', ''worst'', ''hate'', ''horrible'', ''disappointing''],
       neutral_keywords =
         [''neutral'', ''mixed feelings'', ''okay'', ''average'', ''uncertain'', ''unsure''],
       confidence_threshold = 0.7,
       minimum_score = 0.1,
       maximum_score = 0.9 \<rparr>"

section \<open>Library operations used by the analyzer\<close>

text \<open>\<open>str.lower\<close>, on ASCII: the letters A to Z move to a to z, all else stays.\<close>

definition lower_char :: "char \<Rightarrow> char" where
  "lower_char c =
     (let n = (of_char c :: nat) in if 65 \<le> n \<and> n \<le> 90 then char_of (n + 32) else c)"

definition lower :: "string \<Rightarrow> string" where
  "lower s = map lower_char s"

text \<open>
  \<open>random.uniform(a, b)\<close> is \<open>a + (b - a) * random()\<close>, where \<open>random()\<close> draws from
  \<open>[0, 1)\<close>. The generator is the state: a stream of the draws to come.
\<close>

definition random_uniform :: "real \<Rightarrow> real \<Rightarrow> real stream \<Rightarrow> real \<times> real stream" where
  "random_uniform a b rng = (a + (b - a) * shd rng, stl rng)"

section \<open>KeywordBasedSentimentAnalyzer (main.py)\<close>

text \<open>
  The list comprehension \<open>[word for word in keywords if word in statement_lower]\<close>;
  Python's \<open>in\<close> on strings is the contiguous-substring test.
\<close>

definition keyword_matches :: "string list \<Rightarrow> string \<Rightarrow> string list" where
  "keyword_matches keywords statement_lower =
     filter (\<lambda>word. sublist word statement_lower) keywords"

definition analyze :: "AnalyzerConfig \<Rightarrow> string \<Rightarrow> real stream \<Rightarrow> AnalysisResult \<times> real stream" where
  "analyze config stmt rng =
     (let statement_lower = lower stmt;
          positive_matches = keyword_matches (positive_keywords config) statement_lower;
          negative_matches = keyword_matches (negative_keywords config) statement_lower;
          neutral_matches = keyword_matches (neutral_keywords config) statement_lower;
          positive_count = length positive_matches;
          negative_count = length negative_matches;
          neutral_count = length neutral_matches
      in if positive_count > negative_count \<and> positive_count > neutral_count then
           (\<lparr> sentiment = POSITIVE,
              score = min (maximum_score config) (0.6 + (real positive_count * 0.1)),
              confidence = min 0.95 (0.5 + (real positive_count * 0.15)),
              keywords_found = positive_matches \<rparr>, rng)
         else if negative_count > positive_count \<and> negative_count > neutral_count then
           (\<lparr> sentiment = NEGATIVE,
              score = max (minimum_score config) (0.4 - (real negative_count * 0.1)),
              confidence = min 0.95 (0.5 + (real negative_count * 0.15)),
              keywords_found = negative_matches \<rparr>, rng)
         else
           (let (drawn, rng') = random_uniform 0.4 0.6 rng
            in (\<lparr> sentiment = NEUTRAL,
                   score = drawn,
                   confidence = 0.5 + (real neutral_count * 0.1),
                   keywords_found = neutral_matches \<rparr>, rng')))"

text \<open>
  The default negative keywords other than \<open>disappointing\<close>, which stands first and last
  in the list.
\<close>

definition other_negative_keywords :: "string list" where
  "other_negative_keywords =
     [''not happy'', ''hope they improve'', ''bad'', ''terrible'', ''awful'', ''worst'',
      ''hate'', ''horrible'']"

section \<open>Library operations used by the aggregator\<close>

text \<open>Exceptions of the source, as values.\<close>

datatype error = KeyError string | HTTPException nat string

fun error_str :: "error \<Rightarrow> string" where
  "error_str (KeyError k) = [CHR 0x27] @ k @ [CHR 0x27]"
| "error_str (HTTPException code detail) = detail"

text \<open>\<open>str(n)\<close> for a non-negative integer, as an f-string prints it.\<close>

definition digit_char :: "nat \<Rightarrow> char" where
  "digit_char d = ''0123456789'' ! d"

fun str_nat :: "nat \<Rightarrow> string" where
  "str_nat n =
     (if n < 10 then [digit_char n] else str_nat (n div 10) @ [digit_char (n mod 10)])"

declare str_nat.simps [simp del]

text \<open>
  Rounding to the nearest integer, ties to the even neighbour: what \<open>round\<close> and the
  fixed-point formats of Python do on the exact value of their argument.
\<close>

definition round_half_even :: "real \<Rightarrow> int" where
  "round_half_even x =
     (let f = \<lfloor>x\<rfloor>; d = x - of_int f
      in if d < 1 / 2 then f else if 1 / 2 < d then f + 1 else if even f then f else f + 1)"

text \<open>\<open>round(x, 3)\<close>.\<close>

definition py_round3 :: "real \<Rightarrow> real" where
  "py_round3 x = of_int (round_half_even (x * 1000)) / 1000"

text \<open>
  The format \<open>{x:.1%}\<close>: one hundred times \<open>x\<close> with one decimal, then a percent sign.
  The source only formats ratios of a count to a positive count, so the sign is left out.
\<close>

definition format_percent1 :: "real \<Rightarrow> string" where
  "format_percent1 x =
     (let t = nat (round_half_even (x * 1000))
      in str_nat (t div 10) @ ''.'' @ str_nat (t mod 10) @ ''%'')"

text \<open>\<open>d[k] += 1\<close> on a dictionary kept as an association list in insertion order.\<close>

definition dict_incr :: "(string \<times> nat) list \<Rightarrow> string \<Rightarrow> error + (string \<times> nat) list" where
  "dict_incr d k =
     (case map_of d k of None \<Rightarrow> Inl (KeyError k) | Some v \<Rightarrow> Inr (AList.update k (v + 1) d))"

definition dict_get :: "(string \<times> nat) list \<Rightarrow> string \<Rightarrow> error + nat" where
  "dict_get d k = (case map_of d k of None \<Rightarrow> Inl (KeyError k) | Some v \<Rightarrow> Inr v)"

section \<open>AdvancedInsightGenerator (main.py)\<close>

text \<open>
  \<open>_generate_recommendations\<close>. The parameter \<open>total\<close> of the source is written \<open>total_n\<close> here and
  below.
\<close>

definition generate_recommendations ::
  "nat \<Rightarrow> nat \<Rightarrow> nat \<Rightarrow> nat \<Rightarrow> real \<Rightarrow> real \<Rightarrow> string list" where
  "generate_recommendations pos neg neu total_n avg_score conf =
     (if neg > pos
      then [''Address negative feedback urgently to prevent reputation damage'',
            ''Implement customer satisfaction improvement initiatives'']
      else [])
     @ (if real pos > real total_n * 0.6
        then [''Leverage positive sentiment for marketing campaigns'',
              ''Identify and amplify positive influencer voices'']
        else [])
     @ (if real neu > real total_n * 0.4
        then [''Engage neutral influencers with targeted content'',
              ''Provide more compelling value propositions'']
        else [])
     @ (if avg_score < 0.4
        then [''Critical: Overall sentiment is very low - immediate action required'']
        else if avg_score > 0.7
        then [''Excellent: Maintain current strategies and expand successful initiatives'']
        else [])
     @ (if conf < 0.5
        then [''Consider gathering more data for better analysis confidence'']
        else [])"

text \<open>The four sentences of the summary and the clause added to each of them.\<close>

definition positive_sentence :: "nat \<Rightarrow> nat \<Rightarrow> string" where
  "positive_sentence pos total_n =
     ''Overwhelmingly positive sentiment detected ('' @ str_nat pos @ ''/'' @ str_nat total_n
     @ '', '' @ format_percent1 (real pos / real total_n)
     @ ''). Influencers are expressing high satisfaction and enthusiasm.''"

definition negative_sentence :: "nat \<Rightarrow> nat \<Rightarrow> string" where
  "negative_sentence neg total_n =
     ''Concerning negative sentiment trend ('' @ str_nat neg @ ''/'' @ str_nat total_n
     @ '', '' @ format_percent1 (real neg / real total_n)
     @ ''). Significant issues require immediate attention.''"

definition neutral_sentence :: "nat \<Rightarrow> nat \<Rightarrow> string" where
  "neutral_sentence neu total_n =
     ''Neutral sentiment dominates ('' @ str_nat neu @ ''/'' @ str_nat total_n
     @ '', '' @ format_percent1 (real neu / real total_n)
     @ ''). Influencers are taking a wait-and-see approach.''"

definition mixed_sentence :: string where
  "mixed_sentence =
     ''Mixed sentiments observed. Opinions are evenly divided among influencers with no clear majority.''"

definition confidence_clause :: "real \<Rightarrow> string" where
  "confidence_clause confidence_ratio =
     '' Analysis confidence: '' @ format_percent1 confidence_ratio
     @ '' of statements analyzed with high confidence.''"

text \<open>
  The loop of \<open>generate\<close> over the results: the state is the distribution, the running
  total of the scores and the number of results whose confidence is above 0.7. The local
  \<open>average_score\<close> of the source, the mean before rounding, is written \<open>average_score'\<close>.
\<close>

fun tally ::
  "SentimentResult list \<Rightarrow> (string \<times> nat) list \<times> real \<times> nat
     \<Rightarrow> error + ((string \<times> nat) list \<times> real \<times> nat)" where
  "tally [] st = Inr st"
| "tally (result # rest) (distribution, total_score, high_confidence_count) =
     (case dict_incr distribution (sentiment_value (sentiment result)) of
        Inl e \<Rightarrow> Inl e
      | Inr distribution' \<Rightarrow>
          tally rest
            (distribution', total_score + score result,
             if confidence result > 0.7 then high_confidence_count + 1
             else high_confidence_count))"

definition generate :: "SentimentResult list \<Rightarrow> error + InsightSummary" where
  "generate sentiments =
     (if sentiments = [] then
        Inr \<lparr> summary = ''No statements to analyze.'', sentiment_distribution = [],
              average_score = 0, total_statements = 0, recommendations = [] \<rparr>
      else
        case tally sentiments
               (map (\<lambda>sentiment_type. (sentiment_value sentiment_type, 0))
                  [POSITIVE, NEGATIVE, NEUTRAL], 0, 0) of
          Inl e \<Rightarrow> Inl e
        | Inr (distribution, total_score, high_confidence_count) \<Rightarrow>
            (let average_score' = total_score / real (length sentiments);
                 total_n = length sentiments;
                 confidence_ratio = real high_confidence_count / real total_n
             in case dict_get distribution (sentiment_value POSITIVE) of
                  Inl e \<Rightarrow> Inl e
                | Inr pos \<Rightarrow>
             (case dict_get distribution (sentiment_value NEGATIVE) of
                  Inl e \<Rightarrow> Inl e
                | Inr neg \<Rightarrow>
             (case dict_get distribution (sentiment_value NEUTRAL) of
                  Inl e \<Rightarrow> Inl e
                | Inr neu \<Rightarrow>
                    Inr \<lparr> summary =
                            (if pos > neg \<and> pos > neu then positive_sentence pos total_n
                             else if neg > pos \<and> neg > neu then negative_sentence neg total_n
                             else if neu > pos \<and> neu > neg then neutral_sentence neu total_n
                             else mixed_sentence)
                            @ confidence_clause confidence_ratio,
                          sentiment_distribution = distribution,
                          average_score = py_round3 average_score',
                          total_statements = total_n,
                          recommendations =
                            generate_recommendations pos neg neu total_n average_score'
                              confidence_ratio \<rparr>))))"

text \<open>
  The quantities the properties of \<open>generate\<close> are stated with: the number of results with
  a given label, the number of results with confidence above 0.7, and the mean score.
\<close>

definition count_sentiment :: "SentimentType \<Rightarrow> SentimentResult list \<Rightarrow> nat" where
  "count_sentiment t rs = length (filter (\<lambda>r. sentiment r = t) rs)"

definition high_confidence :: "SentimentResult list \<Rightarrow> nat" where
  "high_confidence rs = length (filter (\<lambda>r. confidence r > 0.7) rs)"

definition mean_score :: "SentimentResult list \<Rightarrow> real" where
  "mean_score rs = sum_list (map score rs) / real (length rs)"

section \<open>SentimentAnalysisService and the bulk endpoint (main.py)\<close>

text \<open>
  The service holds the default configuration. Logging and timing are left out. The
  analysis of a statement raises nothing, so the handler of \<open>analyze_statements\<close> has
  nothing to catch.
\<close>

fun analyze_statements :: "string list \<Rightarrow> real stream \<Rightarrow> SentimentResult list \<times> real stream" where
  "analyze_statements [] rng = ([], rng)"
| "analyze_statements (stmt # stmts) rng =
     (let (analysis, rng1) = analyze default_config stmt rng;
          result = \<lparr> sentiment = sentiment analysis, score = score analysis,
                     confidence = confidence analysis,
                     keywords_found = keywords_found analysis, statement = stmt \<rparr>;
          (results, rng2) = analyze_statements stmts rng1
      in (result # results, rng2))"

definition generate_insights :: "string list \<Rightarrow> real stream \<Rightarrow> (error + InsightSummary) \<times> real stream" where
  "generate_insights statements rng =
     (let (sentiments, rng1) = analyze_statements statements rng
      in case generate sentiments of
           Inl e \<Rightarrow>
             (Inl (HTTPException 500 (''Error generating insights: '' @ error_str e)), rng1)
         | Inr insights \<Rightarrow> (Inr insights, rng1))"

text \<open>
  \<open>include_metadata\<close> is an optional boolean; \<open>None\<close> and \<open>False\<close> both skip the
  metadata.
\<close>

definition bulk_analysis ::
  "string list \<Rightarrow> bool option \<Rightarrow> real stream \<Rightarrow> (error + InsightSummary) \<times> real stream" where
  "bulk_analysis statements include_metadata rng =
     (if statements = [] then (Inl (HTTPException 400 ''No statements provided''), rng)
      else
        case generate_insights statements rng of
          (Inl e, rng1) \<Rightarrow> (Inl e, rng1)
        | (Inr insights, rng1) \<Rightarrow>
            if include_metadata = Some True then
              (let (sentiments, rng2) = analyze_statements statements rng1;
                   high_conf_count = length (filter (\<lambda>s. confidence s > 0.7) sentiments)
               in (Inr (insights\<lparr> recommendations :=
                          recommendations insights
                          @ [''Processing metadata: '' @ str_nat high_conf_count @ ''/''
                             @ str_nat (length sentiments) @ '' high-confidence results''] \<rparr>),
                   rng2))
            else (Inr insights, rng1))"

section \<open>Sample results\<close>




section \<open>Properties of the analyzer\<close>

subsection \<open>The result in closed form\<close>

lemma keyword_matches_iff:
  "w \<in> set (keyword_matches keywords s) \<longleftrightarrow>
     w \<in> set keywords \<and> (\<exists>ps ss. s = ps @ w @ ss)"
  by (auto simp: keyword_matches_def sublist_def)

lemma analyze_result:
  "fst (analyze config stmt rng) =
     (let pm = keyword_matches (positive_keywords config) (lower stmt);
          nm = keyword_matches (negative_keywords config) (lower stmt);
          um = keyword_matches (neutral_keywords config) (lower stmt)
      in if length pm > length nm \<and> length pm > length um then
           \<lparr> sentiment = POSITIVE,
             score = min (maximum_score config) (0.6 + real (length pm) * 0.1),
             confidence = min 0.95 (0.5 + real (length pm) * 0.15),
             keywords_found = pm \<rparr>
         else if length nm > length pm \<and> length nm > length um then
           \<lparr> sentiment = NEGATIVE,
             score = max (minimum_score config) (0.4 - real (length nm) * 0.1),
             confidence = min 0.95 (0.5 + real (length nm) * 0.15),
             keywords_found = nm \<rparr>
         else
           \<lparr> sentiment = NEUTRAL,
             score = 0.4 + (0.6 - 0.4) * shd rng,
             confidence = 0.5 + real (length um) * 0.1,
             keywords_found = um \<rparr>)"
  by (simp add: analyze_def Let_def random_uniform_def)

text \<open>Only the neutral branch draws from the generator.\<close>

lemma analyze_rng:
  "snd (analyze config stmt rng) =
     (if sentiment (fst (analyze config stmt rng)) = NEUTRAL then stl rng else rng)"
  by (simp add: analyze_def Let_def random_uniform_def)

lemma default_config_scores:
  "minimum_score default_config = 0.1" "maximum_score default_config = 0.9"
  by (simp_all add: default_config_def)

subsection \<open>Sample statements\<close>

lemma matches_love_amazing:
  "keyword_matches (positive_keywords default_config)
     (lower ''I love the new product launch! It is amazing'') = [''love'', ''amazing'']"
  "keyword_matches (negative_keywords default_config)
     (lower ''I love the new product launch! It is amazing'') = []"
  "keyword_matches (neutral_keywords default_config)
     (lower ''I love the new product launch! It is amazing'') = []"
  by code_simp+

lemma matches_disappointing:
  "keyword_matches (positive_keywords default_config)
     (lower ''The recent update was disappointing'') = []"
  "keyword_matches (negative_keywords default_config)
     (lower ''The recent update was disappointing'') = [''disappointing'', ''disappointing'']"
  "keyword_matches (neutral_keywords default_config)
     (lower ''The recent update was disappointing'') = []"
  by code_simp+

lemma matches_neutral:
  "keyword_matches (positive_keywords default_config)
     (lower ''I am Neutral about the changes'') = []"
  "keyword_matches (negative_keywords default_config)
     (lower ''I am Neutral about the changes'') = []"
  "keyword_matches (neutral_keywords default_config)
     (lower ''I am Neutral about the changes'') = [''neutral'']"
  by code_simp+

lemma matches_all_neutral:
  "keyword_matches (positive_keywords default_config)
     (lower ''neutral mixed feelings okay average uncertain unsure'') = []"
  "keyword_matches (negative_keywords default_config)
     (lower ''neutral mixed feelings okay average uncertain unsure'') = []"
  "keyword_matches (neutral_keywords default_config)
     (lower ''neutral mixed feelings okay average uncertain unsure'') =
   [''neutral'', ''mixed feelings'', ''okay'', ''average'', ''uncertain'', ''unsure'']"
  by code_simp+

lemma sample_draw: "0 \<le> shd (sconst (1/2 :: real))" "shd (sconst (1/2 :: real)) < 1"
  by simp_all

subsection \<open>Classification\<close>

text \<open>
  C1. With \<open>p\<close>, \<open>n\<close>, \<open>u\<close> the numbers of positive, negative and neutral keywords found in
  the lower-cased statement, under any configuration: if \<open>p > n\<close> and \<open>p > u\<close> the result is
  POSITIVE with score \<open>min(maximum_score, 0.6 + 0.1 p)\<close>, confidence
  \<open>min(0.95, 0.5 + 0.15 p)\<close> and the positive matches as keywords; else if \<open>n > p\<close> and
  \<open>n > u\<close> it is NEGATIVE with score \<open>max(minimum_score, 0.4 - 0.1 n)\<close>, confidence
  \<open>min(0.95, 0.5 + 0.15 n)\<close> and the negative matches; in every other case, ties and no
  match at all included, it is NEUTRAL with confidence \<open>0.5 + 0.1 u\<close> and the neutral
  matches.
\<close>

theorem analyze_strict_majority:
  "let pm = keyword_matches (positive_keywords config) (lower stmt);
       nm = keyword_matches (negative_keywords config) (lower stmt);
       um = keyword_matches (neutral_keywords config) (lower stmt);
       p = length pm; n = length nm; u = length um;
       result = fst (analyze config stmt rng)
   in (p > n \<and> p > u \<longrightarrow>
         sentiment result = POSITIVE
         \<and> score result = min (maximum_score config) (0.6 + 0.1 * real p)
         \<and> confidence result = min 0.95 (0.5 + 0.15 * real p)
         \<and> keywords_found result = pm)
    \<and> (\<not> (p > n \<and> p > u) \<and> n > p \<and> n > u \<longrightarrow>
         sentiment result = NEGATIVE
         \<and> score result = max (minimum_score config) (0.4 - 0.1 * real n)
         \<and> confidence result = min 0.95 (0.5 + 0.15 * real n)
         \<and> keywords_found result = nm)
    \<and> (\<not> (p > n \<and> p > u) \<and> \<not> (n > p \<and> n > u) \<longrightarrow>
         sentiment result = NEUTRAL
         \<and> confidence result = 0.5 + 0.1 * real u
         \<and> keywords_found result = um)"
  unfolding analyze_result Let_def by (simp add: mult.commute)

theorem analyze_strict_majority_witness:
  "(let r = fst (analyze default_config ''I love the new product launch! It is amazing''
                  (sconst (1/2)))
    in sentiment r = POSITIVE \<and> score r = 0.8 \<and> confidence r = 0.8
       \<and> keywords_found r = [''love'', ''amazing''])
   \<and> (let r = fst (analyze default_config ''The recent update was disappointing''
                     (sconst (1/2)))
       in sentiment r = NEGATIVE \<and> score r = 0.2 \<and> confidence r = 0.8
          \<and> keywords_found r = [''disappointing'', ''disappointing''])
   \<and> (let r = fst (analyze default_config ''I am Neutral about the changes'' (sconst (1/2)))
       in sentiment r = NEUTRAL \<and> confidence r = 0.6 \<and> keywords_found r = [''neutral''])"
  using
    analyze_strict_majority
      [of default_config "''I love the new product launch! It is amazing''" "sconst (1/2)"]
    analyze_strict_majority
      [of default_config "''The recent update was disappointing''" "sconst (1/2)"]
    analyze_strict_majority
      [of default_config "''I am Neutral about the changes''" "sconst (1/2)"]
  by (simp add: Let_def matches_love_amazing matches_disappointing matches_neutral
        default_config_scores)

subsection \<open>Confidence\<close>

text \<open>
  C2. The confidence of every result lies in \<open>[0, 1]\<close>. The positive and the negative
  branch cap it at 0.95; the neutral branch does not, and a statement with all six default
  neutral keywords gets the confidence 1.1.
\<close>

theorem analyze_neutral_confidence_above_one:
  "sentiment (fst (analyze default_config
      ''neutral mixed feelings okay average uncertain unsure'' rng)) = NEUTRAL
   \<and> confidence (fst (analyze default_config
      ''neutral mixed feelings okay average uncertain unsure'' rng)) = 1.1
   \<and> \<not> confidence (fst (analyze default_config
      ''neutral mixed feelings okay average uncertain unsure'' rng)) \<le> 1"
  by (simp add: analyze_result Let_def matches_all_neutral)

subsection \<open>Score ranges\<close>

text \<open>
  C7. Under the default configuration, and with the draw of the generator in \<open>[0, 1)\<close>, the
  score of every result lies between \<open>minimum_score\<close> and \<open>maximum_score\<close>, that is in
  \<open>[0.1, 0.9]\<close>; a NEUTRAL result has its score in \<open>[0.4, 0.6]\<close>.
\<close>

theorem analyze_score_range:
  assumes "0 \<le> shd rng" and "shd rng < 1"
  shows "let r = fst (analyze default_config stmt rng)
         in minimum_score default_config \<le> score r \<and> score r \<le> maximum_score default_config
          \<and> 0.1 \<le> score r \<and> score r \<le> 0.9
          \<and> (sentiment r = NEUTRAL \<longrightarrow> 0.4 \<le> score r \<and> score r \<le> 0.6)"
  using assms unfolding analyze_result Let_def
  by (auto simp: default_config_def min_def max_def)

theorem analyze_score_range_witness:
  "0 \<le> shd (sconst (1/2 :: real)) \<and> shd (sconst (1/2 :: real)) < 1
   \<and> (let r = fst (analyze default_config ''I am Neutral about the changes'' (sconst (1/2)))
      in sentiment r = NEUTRAL \<and> 0.1 \<le> score r \<and> score r \<le> 0.9
         \<and> 0.4 \<le> score r \<and> score r \<le> 0.6)"
proof -
  have label: "sentiment (fst (analyze default_config ''I am Neutral about the changes''
                 (sconst (1/2)))) = NEUTRAL"
    by (simp add: analyze_result Let_def matches_neutral)
  show ?thesis
    using sample_draw label
      analyze_score_range [OF sample_draw, of "''I am Neutral about the changes''"]
    by (simp add: Let_def)
qed



subsection \<open>The keyword listed twice\<close>

lemma count_list_filter:
  "count_list (filter P xs) x = (if P x then count_list xs x else 0)"
  by (induction xs) auto

lemma negative_keywords_default:
  "negative_keywords default_config =
     ''disappointing'' # other_negative_keywords @ [''disappointing'']"
  by (simp add: default_config_def other_negative_keywords_def)

lemma disappointing_not_other: "''disappointing'' \<notin> set other_negative_keywords"
  by (simp add: other_negative_keywords_def)

lemma negative_matches_disappointing:
  assumes "sublist ''disappointing'' s"
  shows "keyword_matches (negative_keywords default_config) s =
           ''disappointing'' # keyword_matches other_negative_keywords s @ [''disappointing'']"
  using assms by (simp add: keyword_matches_def negative_keywords_default)

lemma count_other:
  "count_list (keyword_matches other_negative_keywords s) ''disappointing'' = 0"
  using disappointing_not_other by (simp add: keyword_matches_def count_list_filter)

text \<open>
  C9. The default negative keywords list \<open>disappointing\<close> twice. So a statement whose
  lower-cased text contains \<open>disappointing\<close> has it twice among its negative matches, and
  twice among the keywords of a NEGATIVE result; a statement that matches no other keyword
  gets the score 0.2 and the confidence 0.8.
\<close>

theorem disappointing_counted_twice:
  assumes "sublist ''disappointing'' (lower stmt)"
  shows "let pm = keyword_matches (positive_keywords default_config) (lower stmt);
             nm = keyword_matches (negative_keywords default_config) (lower stmt);
             um = keyword_matches (neutral_keywords default_config) (lower stmt);
             r = fst (analyze default_config stmt rng)
         in count_list (negative_keywords default_config) ''disappointing'' = 2
          \<and> count_list nm ''disappointing'' = 2
          \<and> 2 \<le> length nm
          \<and> (sentiment r = NEGATIVE \<longrightarrow> count_list (keywords_found r) ''disappointing'' = 2)
          \<and> (set nm = {''disappointing''} \<and> pm = [] \<and> um = [] \<longrightarrow>
               r = \<lparr> sentiment = NEGATIVE, score = 0.2, confidence = 0.8,
                     keywords_found = [''disappointing'', ''disappointing''] \<rparr>)"
proof -
  define pm where "pm = keyword_matches (positive_keywords default_config) (lower stmt)"
  define nm where "nm = keyword_matches (negative_keywords default_config) (lower stmt)"
  define um where "um = keyword_matches (neutral_keywords default_config) (lower stmt)"
  define others where "others = keyword_matches other_negative_keywords (lower stmt)"
  define r where "r = fst (analyze default_config stmt rng)"
  have nm_eq: "nm = ''disappointing'' # others @ [''disappointing'']"
    unfolding nm_def others_def by (rule negative_matches_disappointing [OF assms])
  have c0: "count_list (negative_keywords default_config) ''disappointing'' = 2"
    using disappointing_not_other by (simp add: negative_keywords_default)
  have c1: "count_list nm ''disappointing'' = 2"
    using count_other [of "lower stmt"] by (simp add: nm_eq others_def)
  have c2: "2 \<le> length nm"
    by (simp add: nm_eq)
  have c3: "count_list (keywords_found r) ''disappointing'' = 2" if "sentiment r = NEGATIVE"
  proof -
    from that have "keywords_found r = nm"
      unfolding r_def nm_def analyze_result Let_def by (simp split: if_splits)
    with c1 show ?thesis by simp
  qed
  have c4: "r = \<lparr> sentiment = NEGATIVE, score = 0.2, confidence = 0.8,
                  keywords_found = [''disappointing'', ''disappointing''] \<rparr>"
    if only: "set nm = {''disappointing''}" and none: "pm = []" "um = []"
  proof -
    have "set others \<subseteq> set other_negative_keywords"
      by (auto simp: others_def keyword_matches_def)
    moreover have "set others \<subseteq> {''disappointing''}"
      using only by (auto simp: nm_eq)
    ultimately have "others = []"
      using disappointing_not_other by (cases others) auto
    then have nm2: "nm = [''disappointing'', ''disappointing'']"
      by (simp add: nm_eq)
    show ?thesis
      using none nm2 unfolding r_def pm_def nm_def um_def analyze_result Let_def
      by (simp add: default_config_scores)
  qed
  show ?thesis
    using c0 c1 c2 c3 c4 unfolding Let_def pm_def nm_def um_def r_def by blast
qed

theorem disappointing_counted_twice_witness:
  "sublist ''disappointing'' (lower ''The recent update was disappointing'')
   \<and> (let r = fst (analyze default_config ''The recent update was disappointing''
                     (sconst (1/2)))
      in sentiment r = NEGATIVE \<and> score r = 0.2 \<and> confidence r = 0.8
         \<and> count_list (keywords_found r) ''disappointing'' = 2)"
proof -
  have found: "sublist ''disappointing'' (lower ''The recent update was disappointing'')"
    by code_simp
  show ?thesis
    using found disappointing_counted_twice [OF found, of "sconst (1/2)"]
    by (simp add: Let_def matches_disappointing)
qed

section \<open>Properties of the aggregator\<close>

subsection \<open>The loop and the summary in closed form\<close>

lemma tally_counts:
  "tally rs ([(''positive'', a), (''negative'', b), (''neutral'', c)], ts, h) =
     Inr ([(''positive'', a + count_sentiment POSITIVE rs),
           (''negative'', b + count_sentiment NEGATIVE rs),
           (''neutral'', c + count_sentiment NEUTRAL rs)],
          ts + sum_list (map score rs), h + high_confidence rs)"
proof (induction rs arbitrary: a b c ts h)
  case Nil
  show ?case by (simp add: count_sentiment_def high_confidence_def)
next
  case (Cons r rs)
  show ?case
    by (cases "sentiment r")
       (simp_all add: Cons.IH dict_incr_def count_sentiment_def high_confidence_def)
qed

lemma count_sentiment_total:
  "count_sentiment POSITIVE rs + count_sentiment NEGATIVE rs + count_sentiment NEUTRAL rs
     = length rs"
proof (induction rs)
  case Nil
  show ?case by (simp add: count_sentiment_def)
next
  case (Cons r rs)
  then show ?case by (cases "sentiment r") (simp_all add: count_sentiment_def)
qed

lemma generate_nonempty:
  assumes "rs \<noteq> []"
  shows "generate rs =
     Inr \<lparr> summary =
             (if count_sentiment POSITIVE rs > count_sentiment NEGATIVE rs
                 \<and> count_sentiment POSITIVE rs > count_sentiment NEUTRAL rs
              then positive_sentence (count_sentiment POSITIVE rs) (length rs)
              else if count_sentiment NEGATIVE rs > count_sentiment POSITIVE rs
                 \<and> count_sentiment NEGATIVE rs > count_sentiment NEUTRAL rs
              then negative_sentence (count_sentiment NEGATIVE rs) (length rs)
              else if count_sentiment NEUTRAL rs > count_sentiment POSITIVE rs
                 \<and> count_sentiment NEUTRAL rs > count_sentiment NEGATIVE rs
              then neutral_sentence (count_sentiment NEUTRAL rs) (length rs)
              else mixed_sentence)
             @ confidence_clause (real (high_confidence rs) / real (length rs)),
           sentiment_distribution =
             [(''positive'', count_sentiment POSITIVE rs),
              (''negative'', count_sentiment NEGATIVE rs),
              (''neutral'', count_sentiment NEUTRAL rs)],
           average_score = py_round3 (mean_score rs),
           total_statements = length rs,
           recommendations =
             generate_recommendations (count_sentiment POSITIVE rs)
               (count_sentiment NEGATIVE rs) (count_sentiment NEUTRAL rs) (length rs)
               (mean_score rs) (real (high_confidence rs) / real (length rs)) \<rparr>"
  using assms
  by (simp add: generate_def tally_counts [of rs 0 0 0 0 0, simplified] dict_get_def
        mean_score_def Let_def)

lemma generate_empty:
  "generate [] =
     Inr \<lparr> summary = ''No statements to analyze.'', sentiment_distribution = [],
           average_score = 0, total_statements = 0, recommendations = [] \<rparr>"
  by (simp add: generate_def)



subsection \<open>Evaluation on the sample results\<close>


lemma str_nat_small: "n < 10 \<Longrightarrow> str_nat n = [digit_char n]"
  by (simp add: str_nat.simps)




subsection \<open>Distribution and average\<close>

text \<open>
  C3. For every list of results, the empty one included, \<open>generate\<close> returns a summary
  whose distribution has distinct keys and values that add up to \<open>total_statements\<close>.
\<close>

theorem distribution_sums_to_total:
  "\<exists>s. generate rs = Inr s
       \<and> distinct (map fst (sentiment_distribution s))
       \<and> sum_list (map snd (sentiment_distribution s)) = total_statements s"
proof (cases "rs = []")
  case True
  then show ?thesis by (simp add: generate_empty)
next
  case False
  then show ?thesis
    using count_sentiment_total [of rs] by (simp add: generate_nonempty)
qed



subsection \<open>Summary text\<close>



subsection \<open>Recommendations\<close>



section \<open>Properties of the bulk endpoint\<close>

lemma analyze_confidence_rng:
  "confidence (fst (analyze config stmt rng)) = confidence (fst (analyze config stmt rng'))"
  by (simp add: analyze_result Let_def)

lemma analyze_statements_confidence:
  "map confidence (fst (analyze_statements stmts rng)) =
   map confidence (fst (analyze_statements stmts rng'))"
proof (induction stmts arbitrary: rng rng')
  case Nil
  show ?case by simp
next
  case (Cons stmt stmts)
  show ?case
    using analyze_confidence_rng [of default_config stmt rng rng']
      Cons.IH [of "snd (analyze default_config stmt rng)" "snd (analyze default_config stmt rng')"]
    by (simp add: split_def Let_def)
qed

lemma analyze_statements_length:
  "length (fst (analyze_statements stmts rng)) = length stmts"
  by (induction stmts arbitrary: rng) (simp_all add: split_def Let_def)

lemma high_confidence_map:
  "high_confidence rs = length (filter (\<lambda>c. c > 0.7) (map confidence rs))"
  by (simp add: high_confidence_def filter_map comp_def)

lemma high_confidence_rng:
  "high_confidence (fst (analyze_statements stmts rng)) =
   high_confidence (fst (analyze_statements stmts rng'))"
  unfolding high_confidence_map
  by (simp add: analyze_statements_confidence [of stmts rng rng'])

text \<open>
  C8. For a non-empty list of statements, the bulk analysis with \<open>include_metadata\<close> true
  returns the summary that \<open>generate\<close> gives for the analysed statements, with one
  recommendation added at the end: \<open>Processing metadata: k/n high-confidence results\<close>,
  where \<open>k\<close> is the number of results with confidence above 0.7 and \<open>n\<close> the number of
  statements.
\<close>

theorem bulk_analysis_metadata:
  assumes "statements \<noteq> []"
  shows "\<exists>insights rng1 rng2.
           generate_insights statements rng = (Inr insights, rng1)
         \<and> generate (fst (analyze_statements statements rng)) = Inr insights
         \<and> bulk_analysis statements (Some True) rng =
             (Inr (insights\<lparr> recommendations :=
                     recommendations insights
                     @ [''Processing metadata: ''
                        @ str_nat (high_confidence (fst (analyze_statements statements rng)))
                        @ ''/'' @ str_nat (length statements)
                        @ '' high-confidence results''] \<rparr>), rng2)"
proof -
  define sentiments where "sentiments = fst (analyze_statements statements rng)"
  define rng1 where "rng1 = snd (analyze_statements statements rng)"
  have "sentiments \<noteq> []"
    using assms analyze_statements_length [of statements rng]
    unfolding sentiments_def by (cases statements) auto
  then obtain insights where gen: "generate sentiments = Inr insights"
    by (simp add: generate_nonempty)
  have first: "generate_insights statements rng = (Inr insights, rng1)"
    using gen unfolding generate_insights_def sentiments_def rng1_def
    by (simp add: split_def)
  have again: "high_confidence (fst (analyze_statements statements rng1)) =
                 high_confidence sentiments"
    unfolding sentiments_def by (rule high_confidence_rng)
  have "bulk_analysis statements (Some True) rng =
          (Inr (insights\<lparr> recommendations :=
                  recommendations insights
                  @ [''Processing metadata: '' @ str_nat (high_confidence sentiments)
                     @ ''/'' @ str_nat (length statements)
                     @ '' high-confidence results''] \<rparr>),
           snd (analyze_statements statements rng1))"
    using assms again
    by (simp add: bulk_analysis_def first split_def Let_def analyze_statements_length
          high_confidence_def)
  with first gen show ?thesis
    unfolding sentiments_def by blast
qed

theorem bulk_analysis_metadata_witness:
  "[''I love the new product launch! It is amazing''] \<noteq> []
   \<and> (\<exists>s. fst (bulk_analysis [''I love the new product launch! It is amazing''] (Some True)
                  (sconst (1/2))) = Inr s
          \<and> recommendations s =
             [''Leverage positive sentiment for marketing campaigns'',
              ''Identify and amplify positive influencer voices'',
              ''Excellent: Maintain current strategies and expand successful initiatives'',
              ''Processing metadata: 1/1 high-confidence results''])"
proof -
  let ?stmts = "[''I love the new product launch! It is amazing'']"
  let ?rs = "fst (analyze_statements ?stmts (sconst (1/2)))"
  have ne: "?stmts \<noteq> []"
    by simp
  have rs: "?rs = [\<lparr> sentiment = POSITIVE, score = 0.8, confidence = 0.8,
                    keywords_found = [''love'', ''amazing''],
                    statement = ''I love the new product launch! It is amazing'' \<rparr>]"
    by (simp add: split_def Let_def analyze_result matches_love_amazing
          default_config_scores)
  have high: "high_confidence ?rs = 1"
    unfolding rs by (simp add: high_confidence_def)
  have recs: "generate ?rs = Inr s \<Longrightarrow> recommendations s =
      [''Leverage positive sentiment for marketing campaigns'',
       ''Identify and amplify positive influencer voices'',
       ''Excellent: Maintain current strategies and expand successful initiatives'']" for s
    unfolding rs
    by (auto simp: generate_nonempty generate_recommendations_def count_sentiment_def
          high_confidence_def mean_score_def)
  from bulk_analysis_metadata [OF ne, of "sconst (1/2)"] obtain insights rng1 rng2
    where gen: "generate ?rs = Inr insights"
      and bulk: "bulk_analysis ?stmts (Some True) (sconst (1/2)) =
        (Inr (insights\<lparr> recommendations :=
                recommendations insights
                @ [''Processing metadata: '' @ str_nat (high_confidence ?rs)
                   @ ''/'' @ str_nat (length ?stmts) @ '' high-confidence results''] \<rparr>), rng2)"
    by blast
  have "bulk_analysis ?stmts (Some True) (sconst (1/2)) =
          (Inr (insights\<lparr> recommendations :=
                  recommendations insights
                  @ [''Processing metadata: 1/1 high-confidence results''] \<rparr>), rng2)"
    using bulk unfolding high by (simp add: str_nat_small digit_char_def)
  then show ?thesis
    using ne recs [OF gen] by simp
qed

end
